theory Spec2Isabelle
  imports Main
begin

section \<open>The vocabulary of the infrastructure SDK\<close>

text \<open>
  The stack of \<^verbatim>\<open>src/cdk/index.ts\<close> is a sequence of constructor and method calls on
  objects of the infrastructure SDK. The calls are modelled as functions on an explicit
  \<open>Stack\<close> state: each one appends the descriptor it declares. The enumerations list the
  values of the SDK's enums that such a stack can name; the source uses one of each.
\<close>

datatype AttributeType = BINARY | NUMBER | STRING

datatype RemovalPolicy = DESTROY | RETAIN | SNAPSHOT

datatype Runtime = NODEJS_16_X | NODEJS_18_X | NODEJS_20_X

datatype AuthorizationType = NONE | IAM | CUSTOM | COGNITO

datatype PassthroughBehavior = WHEN_NO_MATCH | NEVER | WHEN_NO_TEMPLATES

datatype Access = ReadData | WriteData | ReadWriteData

text \<open>A construct is declared as \<^verbatim>\<open>new X(scope, id, props)\<close>: an identifier and its properties.\<close>

record 'p Construct =
  constructId :: string
  props :: 'p

subsection \<open>Storage\<close>

record Attribute =
  name :: string
  type :: AttributeType

record TableProps =
  partitionKey :: Attribute
  tableName :: string
  removalPolicy :: RemovalPolicy

type_synonym Table = "TableProps Construct"

subsection \<open>Compute\<close>

record BundlingOptions =
  externalModules :: "string list"

text \<open>
  \<open>entry\<close> holds the arguments of \<^verbatim>\<open>path.join\<close> in order; the joined and normalised path
  depends on the platform and on \<^verbatim>\<open>__dirname\<close>, and is left to the runtime. The shared
  configuration object of the source has no \<open>entry\<close> key, hence the option.
\<close>

record NodejsFunctionProps =
  entry :: "string list option"
  bundling :: BundlingOptions
  environment :: "(string \<times> string) list"
  runtime :: Runtime

type_synonym NodejsFunction = "NodejsFunctionProps Construct"

text \<open>
  The object literal \<^verbatim>\<open>{ entry: e, ...p }\<close>: the keys of \<open>p\<close> come after \<open>entry\<close> and
  win over it, so \<open>e\<close> stays only where \<open>p\<close> has no entry of its own.
\<close>

definition spreadOver :: "string list \<Rightarrow> NodejsFunctionProps \<Rightarrow> NodejsFunctionProps" where
  "spreadOver e p = (case entry p of None \<Rightarrow> p\<lparr>entry := Some e\<rparr> | Some _ \<Rightarrow> p)"

subsection \<open>Permissions\<close>

record Grant =
  grantee :: NodejsFunction
  onTable :: Table
  access :: Access

subsection \<open>Routing\<close>

record 'v Response =
  statusCode :: string
  responseParameters :: "(string \<times> 'v) list"

record MockIntegrationOptions =
  integrationResponses :: "string Response list"
  passthroughBehavior :: PassthroughBehavior
  requestTemplates :: "(string \<times> string) list"

datatype Integration =
  LambdaIntegration NodejsFunction
| MockIntegration MockIntegrationOptions

record MethodOptions =
  authorizationType :: "AuthorizationType option"
  methodResponses :: "bool Response list option"

record Method =
  httpMethod :: string
  integration :: Integration
  options :: MethodOptions

text \<open>
  Route nodes are objects that the source keeps mutating after it has created them and
  hung children below them, so they live in a store: a node is named by its index in
  \<open>resources\<close>, and \<open>parentResource\<close> is the index of the node above (none for the root
  of an API).
\<close>

record Resource =
  parentResource :: "nat option"
  pathPart :: string
  path :: string
  methods :: "Method list"

record RestApiProps =
  restApiName :: string

record RestApi =
  apiId :: string
  apiProps :: RestApiProps
  root :: nat

record Stack =
  stackId :: string
  tables :: "Table list"
  lambdas :: "NodejsFunction list"
  grants :: "Grant list"
  restApis :: "RestApi list"
  resources :: "Resource list"

section \<open>The SDK calls the stack makes\<close>

datatype error =
  NoSuchResource nat
| DuplicateMethod string string

fun and_then :: "error + 'a \<Rightarrow> ('a \<Rightarrow> error + 'b) \<Rightarrow> error + 'b" where
  "and_then (Inl e) f = Inl e"
| "and_then (Inr x) f = f x"

definition Stack_new :: "string \<Rightarrow> Stack" where
  "Stack_new sid =
     \<lparr>stackId = sid, tables = [], lambdas = [], grants = [], restApis = [], resources = []\<rparr>"

definition Table_new :: "string \<Rightarrow> TableProps \<Rightarrow> Stack \<Rightarrow> Table \<times> Stack" where
  "Table_new cid p s =
     (let t = \<lparr>constructId = cid, props = p\<rparr> in (t, s\<lparr>tables := tables s @ [t]\<rparr>))"

definition NodejsFunction_new ::
    "string \<Rightarrow> NodejsFunctionProps \<Rightarrow> Stack \<Rightarrow> NodejsFunction \<times> Stack" where
  "NodejsFunction_new cid p s =
     (let f = \<lparr>constructId = cid, props = p\<rparr> in (f, s\<lparr>lambdas := lambdas s @ [f]\<rparr>))"

definition grantReadWriteData :: "Table \<Rightarrow> NodejsFunction \<Rightarrow> Stack \<Rightarrow> Stack" where
  "grantReadWriteData t f s =
     s\<lparr>grants := grants s @ [\<lparr>grantee = f, onTable = t, access = ReadWriteData\<rparr>]\<rparr>"

text \<open>A new API comes with its root node, whose path is \<^verbatim>\<open>/\<close>.\<close>

definition RestApi_new :: "string \<Rightarrow> RestApiProps \<Rightarrow> Stack \<Rightarrow> RestApi \<times> Stack" where
  "RestApi_new cid p s =
     (let api = \<lparr>apiId = cid, apiProps = p, root = length (resources s)\<rparr>
      in (api, s\<lparr>restApis := restApis s @ [api],
                 resources := resources s @
                   [\<lparr>parentResource = None, pathPart = [], path = ''/'', methods = []\<rparr>]\<rparr>))"

text \<open>
  \<^verbatim>\<open>parent.addResource(part)\<close>: the child's path is the parent's, a slash unless the
  parent's path ends in one, and the part.
\<close>

definition addResource :: "nat \<Rightarrow> string \<Rightarrow> Stack \<Rightarrow> error + (nat \<times> Stack)" where
  "addResource parent part s =
     (if parent < length (resources s) then
        let pp = path (resources s ! parent);
            p = (if pp \<noteq> [] \<and> last pp = CHR ''/'' then pp else pp @ ''/'') @ part
        in Inr (length (resources s),
                s\<lparr>resources := resources s @
                   [\<lparr>parentResource = Some parent, pathPart = part, path = p, methods = []\<rparr>]\<rparr>)
      else Inl (NoSuchResource parent))"

text \<open>
  \<^verbatim>\<open>node.addMethod(verb, integration, options)\<close> adds a method entry to a node. What the
  SDK does when the node already has an entry for the verb is not decided by this
  repository, so it is a parameter: the call is refused (the node stays as it was), the
  old entry is replaced, or a second entry is added.
\<close>

datatype OnDuplicate = Reject | Replace | Append

definition addMethod ::
    "OnDuplicate \<Rightarrow> nat \<Rightarrow> string \<Rightarrow> Integration \<Rightarrow> MethodOptions \<Rightarrow> Stack \<Rightarrow> error + Stack" where
  "addMethod dup r verb integ opts s =
     (if r < length (resources s) then
        let node = resources s ! r;
            ms = methods node;
            m = \<lparr>httpMethod = verb, integration = integ, options = opts\<rparr>
        in if verb \<in> set (map httpMethod ms) then
             (case dup of
                Reject \<Rightarrow> Inl (DuplicateMethod (path node) verb)
              | Replace \<Rightarrow>
                  Inr (s\<lparr>resources := (resources s)
                    [r := node\<lparr>methods := map (\<lambda>x. if httpMethod x = verb then m else x) ms\<rparr>]\<rparr>)
              | Append \<Rightarrow>
                  Inr (s\<lparr>resources := (resources s)[r := node\<lparr>methods := ms @ [m]\<rparr>]\<rparr>))
           else Inr (s\<lparr>resources := (resources s)[r := node\<lparr>methods := ms @ [m]\<rparr>]\<rparr>)
      else Inl (NoSuchResource r))"

section \<open>The cross-origin attachment routine\<close>

text \<open>The header values of the source carry their single quotes inside the string.\<close>

definition quoted :: "string \<Rightarrow> string" where
  "quoted s = CHR 0x27 # s @ [CHR 0x27]"

text \<open>
  The two object literals that \<^verbatim>\<open>addCorsOptions\<close> hands to \<^verbatim>\<open>addMethod\<close>: the mock
  integration with its integration response, and the method options with the method
  response.
\<close>

definition corsIntegration :: Integration where
  "corsIntegration =
     MockIntegration
       \<lparr>integrationResponses =
          [\<lparr>statusCode = ''200'',
            responseParameters =
              [(''method.response.header.Access-Control-Allow-Headers'',
                quoted ''Content-Type,X-Amz-Date,Authorization,X-Api-Key,X-Amz-Security-Token,X-Amz-User-Agent''),
               (''method.response.header.Access-Control-Allow-Origin'', quoted ''*''),
               (''method.response.header.Access-Control-Allow-Credentials'', quoted ''false''),
               (''method.response.header.Access-Control-Allow-Methods'',
                quoted ''OPTIONS,GET,PUT,POST,DELETE'')]\<rparr>],
        passthroughBehavior = NEVER,
        requestTemplates =
          [(''application/json'',
            ''{'' @ [CHR 0x22] @ ''statusCode'' @ [CHR 0x22] @ '': 200}'')]\<rparr>"

definition corsMethodOptions :: MethodOptions where
  "corsMethodOptions =
     \<lparr>authorizationType = None,
      methodResponses =
        Some [\<lparr>statusCode = ''200'',
               responseParameters =
                 [(''method.response.header.Access-Control-Allow-Headers'', True),
                  (''method.response.header.Access-Control-Allow-Methods'', True),
                  (''method.response.header.Access-Control-Allow-Credentials'', True),
                  (''method.response.header.Access-Control-Allow-Origin'', True)]\<rparr>]\<rparr>"

definition addCorsOptions :: "OnDuplicate \<Rightarrow> nat \<Rightarrow> Stack \<Rightarrow> error + Stack" where
  "addCorsOptions dup apiResource s =
     addMethod dup apiResource ''OPTIONS'' corsIntegration corsMethodOptions s"

section \<open>The stack\<close>

text \<open>The object literals that the constructor names before it uses them.\<close>

definition dynamoTableProps :: TableProps where
  "dynamoTableProps =
     \<lparr>partitionKey = \<lparr>name = ''id'', type = STRING\<rparr>,
      tableName = ''items'',
      removalPolicy = DESTROY\<rparr>"

definition nodeJsFunctionProps :: "Table \<Rightarrow> NodejsFunctionProps" where
  "nodeJsFunctionProps dynamoTable =
     \<lparr>entry = None,
      bundling = \<lparr>externalModules = [''aws-sdk'']\<rparr>,
      environment =
        [(''PRIMARY_KEY'', ''id''),
         (''TABLE_NAME'', tableName (props dynamoTable))],
      runtime = NODEJS_20_X\<rparr>"

definition methodOption :: MethodOptions where
  "methodOption = \<lparr>authorizationType = Some NONE, methodResponses = None\<rparr>"

text \<open>
  The constructor of \<^verbatim>\<open>ApiLambdaCrudDynamoDBStack\<close>, statement by statement. Its inputs
  are the stack's identifier and \<^verbatim>\<open>__dirname\<close>, the directory of the source file; the
  spread \<^verbatim>\<open>{ ...methodOption }\<close> is a copy of \<open>methodOption\<close>.
\<close>

definition ApiLambdaCrudDynamoDBStack :: "OnDuplicate \<Rightarrow> string \<Rightarrow> string \<Rightarrow> error + Stack" where
  "ApiLambdaCrudDynamoDBStack dup dirname sid =
     (let s = Stack_new sid;
          (dynamoTable, s) = Table_new ''items'' dynamoTableProps s;
          (getOneLambda, s) =
            NodejsFunction_new ''getOneItemFunction''
              (spreadOver [dirname, ''..'', ''lambdas'', ''get-one.ts'']
                 (nodeJsFunctionProps dynamoTable)) s;
          (getAllLambda, s) =
            NodejsFunction_new ''getAllItemsFunction''
              (spreadOver [dirname, ''..'', ''lambdas'', ''get-all.ts'']
                 (nodeJsFunctionProps dynamoTable)) s;
          (createOneLambda, s) =
            NodejsFunction_new ''createItemFunction''
              (spreadOver [dirname, ''..'', ''lambdas'', ''create.ts'']
                 (nodeJsFunctionProps dynamoTable)) s;
          (updateOneLambda, s) =
            NodejsFunction_new ''updateItemFunction''
              (spreadOver [dirname, ''..'', ''lambdas'', ''update-one.ts'']
                 (nodeJsFunctionProps dynamoTable)) s;
          (deleteOneLambda, s) =
            NodejsFunction_new ''deleteItemFunction''
              (spreadOver [dirname, ''..'', ''lambdas'', ''delete-one.ts'']
                 (nodeJsFunctionProps dynamoTable)) s;
          s = grantReadWriteData dynamoTable getAllLambda s;
          s = grantReadWriteData dynamoTable getOneLambda s;
          s = grantReadWriteData dynamoTable createOneLambda s;
          s = grantReadWriteData dynamoTable updateOneLambda s;
          s = grantReadWriteData dynamoTable deleteOneLambda s;
          getAllIntegration = LambdaIntegration getAllLambda;
          createOneIntegration = LambdaIntegration createOneLambda;
          getOneIntegration = LambdaIntegration getOneLambda;
          updateOneIntegration = LambdaIntegration updateOneLambda;
          deleteOneIntegration = LambdaIntegration deleteOneLambda;
          (api, s) = RestApi_new ''itemsApi'' \<lparr>restApiName = ''Items Service''\<rparr> s
      in and_then (addResource (root api) ''items'' s) (\<lambda>(items, s).
         and_then (addMethod dup items ''GET'' getAllIntegration methodOption s) (\<lambda>s.
         and_then (addMethod dup items ''POST'' createOneIntegration methodOption s) (\<lambda>s.
         and_then (addCorsOptions dup items s) (\<lambda>s.
         and_then (addResource items ''{id}'' s) (\<lambda>(singleItem, s).
         and_then (addMethod dup singleItem ''GET'' getOneIntegration methodOption s) (\<lambda>s.
         and_then (addMethod dup singleItem ''PUT'' updateOneIntegration methodOption s) (\<lambda>s.
         and_then (addMethod dup singleItem ''DELETE'' deleteOneIntegration methodOption s) (\<lambda>s.
         addCorsOptions dup singleItem s)))))))))"

text \<open>
  The last three lines of the file: the one stack of the application, under its fixed
  identifier.
\<close>

definition app :: "OnDuplicate \<Rightarrow> string \<Rightarrow> error + Stack" where
  "app dup dirname = ApiLambdaCrudDynamoDBStack dup dirname ''ApiLambdaCrudDynamoDBExample''"

section \<open>Reading the declared graph\<close>

text \<open>
  The words of the specification, as functions on the graph: the preflight entries of a
  node and its verb-bound ones, the function an integration invokes, the responses an
  integration declares (a function integration declares none of its own), and the value
  a preflight entry returns under a header name.
\<close>

definition preflights :: "Resource \<Rightarrow> Method list" where
  "preflights r = filter (\<lambda>m. httpMethod m = ''OPTIONS'') (methods r)"

definition verbBound :: "Resource \<Rightarrow> Method list" where
  "verbBound r = filter (\<lambda>m. httpMethod m \<noteq> ''OPTIONS'') (methods r)"

fun handler :: "Integration \<Rightarrow> NodejsFunction option" where
  "handler (LambdaIntegration f) = Some f"
| "handler (MockIntegration m) = None"

fun integrationResponsesOf :: "Integration \<Rightarrow> string Response list" where
  "integrationResponsesOf (LambdaIntegration f) = []"
| "integrationResponsesOf (MockIntegration m) = integrationResponses m"

definition headerParam :: "string \<Rightarrow> string" where
  "headerParam h = ''method.response.header.'' @ h"

definition corsHeaders :: "string list" where
  "corsHeaders =
     map headerParam
       [''Access-Control-Allow-Headers'', ''Access-Control-Allow-Methods'',
        ''Access-Control-Allow-Origin'', ''Access-Control-Allow-Credentials'']"

definition exactlyCorsHeaders :: "(string \<times> 'v) list \<Rightarrow> bool" where
  "exactlyCorsHeaders ps \<longleftrightarrow> set (map fst ps) = set corsHeaders \<and> distinct (map fst ps)"

definition preflightHeader :: "Method \<Rightarrow> string \<Rightarrow> string option" where
  "preflightHeader m h =
     (case integrationResponsesOf (integration m) of
        [ir] \<Rightarrow> map_of (responseParameters ir) (headerParam h)
      | _ \<Rightarrow> None)"

definition methodEntries :: "Stack \<Rightarrow> Method list" where
  "methodEntries s = concat (map methods (resources s))"

text \<open>
  An entry that names no authorization type gets the SDK's default: that of the API's
  default method options, which this stack does not set, and open access otherwise.
\<close>

definition resolvedAuthorizationType :: "MethodOptions \<Rightarrow> AuthorizationType" where
  "resolvedAuthorizationType opts =
     (case authorizationType opts of Some a \<Rightarrow> a | None \<Rightarrow> NONE)"

definition openEntries :: "Stack \<Rightarrow> Method list" where
  "openEntries s =
     filter (\<lambda>m. resolvedAuthorizationType (options m) = NONE) (methodEntries s)"

text \<open>The verbs that an \<^verbatim>\<open>Access-Control-Allow-Methods\<close> value lists between its quotes.\<close>

fun splitOn :: "char \<Rightarrow> string \<Rightarrow> string list" where
  "splitOn c [] = [[]]"
| "splitOn c (x # xs) =
     (if x = c then [] # splitOn c xs
      else (case splitOn c xs of [] \<Rightarrow> [[x]] | w # ws \<Rightarrow> (x # w) # ws))"

definition unquoted :: "string \<Rightarrow> string" where
  "unquoted v =
     (if 2 \<le> length v \<and> hd v = CHR 0x27 \<and> last v = CHR 0x27 then butlast (tl v) else v)"

definition advertised :: "string \<Rightarrow> string list" where
  "advertised v = splitOn CHR '','' (unquoted v)"

text \<open>
  The stack as it stands after a call: a call that is refused throws before it has
  changed anything.
\<close>

definition after :: "Stack \<Rightarrow> error + Stack \<Rightarrow> Stack" where
  "after s res = (case res of Inl _ \<Rightarrow> s | Inr s' \<Rightarrow> s')"

section \<open>The graph the constructor builds\<close>

lemmas sdk_defs =
  Stack_new_def Table_new_def NodejsFunction_new_def grantReadWriteData_def
  RestApi_new_def addResource_def addMethod_def addCorsOptions_def

lemma and_then_weak_cong: "m = m' \<Longrightarrow> and_then m f = and_then m' f"
  by simp

text \<open>
  Whatever the SDK does with a repeated verb, the constructor never repeats one, returns,
  and returns this graph.
\<close>

lemma constructor_result:
  "ApiLambdaCrudDynamoDBStack dup dirname sid =
     (let dynamoTable = \<lparr>constructId = ''items'', props = dynamoTableProps\<rparr>;
          fn = (\<lambda>cid file.
            \<lparr>constructId = cid,
             props = spreadOver [dirname, ''..'', ''lambdas'', file]
                       (nodeJsFunctionProps dynamoTable)\<rparr>);
          getOneLambda = fn ''getOneItemFunction'' ''get-one.ts'';
          getAllLambda = fn ''getAllItemsFunction'' ''get-all.ts'';
          createOneLambda = fn ''createItemFunction'' ''create.ts'';
          updateOneLambda = fn ''updateItemFunction'' ''update-one.ts'';
          deleteOneLambda = fn ''deleteItemFunction'' ''delete-one.ts'';
          bound = (\<lambda>verb f.
            \<lparr>httpMethod = verb, integration = LambdaIntegration f, options = methodOption\<rparr>);
          preflight =
            \<lparr>httpMethod = ''OPTIONS'', integration = corsIntegration,
             options = corsMethodOptions\<rparr>
      in Inr \<lparr>stackId = sid,
              tables = [dynamoTable],
              lambdas = [getOneLambda, getAllLambda, createOneLambda, updateOneLambda,
                         deleteOneLambda],
              grants = map (\<lambda>f. \<lparr>grantee = f, onTable = dynamoTable, access = ReadWriteData\<rparr>)
                         [getAllLambda, getOneLambda, createOneLambda, updateOneLambda,
                          deleteOneLambda],
              restApis = [\<lparr>apiId = ''itemsApi'',
                           apiProps = \<lparr>restApiName = ''Items Service''\<rparr>, root = 0\<rparr>],
              resources =
                [\<lparr>parentResource = None, pathPart = [], path = ''/'', methods = []\<rparr>,
                 \<lparr>parentResource = Some 0, pathPart = ''items'', path = ''/items'',
                  methods = [bound ''GET'' getAllLambda, bound ''POST'' createOneLambda,
                             preflight]\<rparr>,
                 \<lparr>parentResource = Some 1, pathPart = ''{id}'', path = ''/items/{id}'',
                  methods = [bound ''GET'' getOneLambda, bound ''PUT'' updateOneLambda,
                             bound ''DELETE'' deleteOneLambda, preflight]\<rparr>]\<rparr>)"
  by (simp add: ApiLambdaCrudDynamoDBStack_def sdk_defs Let_def
        cong: and_then_weak_cong let_weak_cong prod.case_cong_weak)

section \<open>The claims of the specification\<close>

subsection \<open>Helper facts about the preflight contract\<close>

lemma cors_integration_headers:
  "\<exists>ir. integrationResponsesOf corsIntegration = [ir] \<and> exactlyCorsHeaders (responseParameters ir)"
  by (simp add: corsIntegration_def exactlyCorsHeaders_def corsHeaders_def headerParam_def insert_commute)

lemma cors_method_headers:
  "\<exists>mr. methodResponses corsMethodOptions = Some [mr] \<and> exactlyCorsHeaders (responseParameters mr)"
  by (simp add: corsMethodOptions_def exactlyCorsHeaders_def corsHeaders_def headerParam_def insert_commute)

lemma cors_values:
  "preflightHeader \<lparr>httpMethod = v, integration = corsIntegration, options = opts\<rparr>
     ''Access-Control-Allow-Origin'' = Some (quoted ''*'')"
  "preflightHeader \<lparr>httpMethod = v, integration = corsIntegration, options = opts\<rparr>
     ''Access-Control-Allow-Credentials'' = Some (quoted ''false'')"
  "preflightHeader \<lparr>httpMethod = v, integration = corsIntegration, options = opts\<rparr>
     ''Access-Control-Allow-Headers'' =
     Some (quoted ''Content-Type,X-Amz-Date,Authorization,X-Api-Key,X-Amz-Security-Token,X-Amz-User-Agent'')"
  "preflightHeader \<lparr>httpMethod = v, integration = corsIntegration, options = opts\<rparr>
     ''Access-Control-Allow-Methods'' = Some (quoted ''OPTIONS,GET,PUT,POST,DELETE'')"
  by (simp_all add: preflightHeader_def corsIntegration_def headerParam_def)

lemma cors_status:
  "handler corsIntegration = None"
  "map statusCode (integrationResponsesOf corsIntegration) = [''200'']"
  "\<exists>z. methodResponses corsMethodOptions = Some z \<and> map statusCode z = [''200'']"
  by (simp_all add: corsIntegration_def corsMethodOptions_def)

text \<open>Replacing the entries of a verb by one entry of that verb.\<close>

lemma replace_absent:
  "v \<notin> httpMethod ` set ms \<Longrightarrow> map (\<lambda>x. if httpMethod x = v then m else x) ms = ms"
  by (induction ms) auto

lemma replace_twice:
  "httpMethod m = v \<Longrightarrow>
   map (\<lambda>x. if httpMethod x = v then m else x) (map (\<lambda>x. if httpMethod x = v then m else x) ms) =
   map (\<lambda>x. if httpMethod x = v then m else x) ms"
  by (induction ms) auto

lemma replace_present:
  "httpMethod m = v \<Longrightarrow> v \<in> httpMethod ` set ms \<Longrightarrow>
   set (filter (\<lambda>x. httpMethod x = v) (map (\<lambda>x. if httpMethod x = v then m else x) ms)) = {m}"
  by (induction ms) auto

subsection \<open>C1: the counts of the graph\<close>

text \<open>
  C1, as the specification states it, counts 8 method entries (6 bound to a verb and 2
  preflight). The constructor declares 7: GET, POST and OPTIONS on \<^verbatim>\<open>/items\<close>, and GET,
  PUT, DELETE and OPTIONS on \<^verbatim>\<open>/items/{id}\<close>. At the application's own stack the number
  of method entries is 7 and not 8.
\<close>

theorem stack_counts_not_eight:
  "\<not> isl (app Reject ''/srv/app/cdk'') \<and>
   length (methodEntries (projr (app Reject ''/srv/app/cdk''))) = 7 \<and>
   length (methodEntries (projr (app Reject ''/srv/app/cdk''))) \<noteq> 8"
  by (simp add: app_def constructor_result Let_def methodEntries_def)

text \<open>
  C1, amended: for every identifier and source directory, and whatever the SDK does with
  a repeated verb, the constructor returns a graph with exactly 1 table, exactly 5
  functions, exactly 5 grants and exactly 7 method entries; the entries lie on the two
  nodes \<^verbatim>\<open>/items\<close> (2 bound to a verb, 1 preflight) and \<^verbatim>\<open>/items/{id}\<close> (3 bound to a verb,
  1 preflight), which are the only nodes the constructor adds below the API's root, and
  the root carries no entry.
\<close>

theorem stack_counts:
  "\<exists>s. ApiLambdaCrudDynamoDBStack dup dirname sid = Inr s \<and>
       length (tables s) = 1 \<and> length (lambdas s) = 5 \<and> length (grants s) = 5 \<and>
       length (methodEntries s) = 7 \<and>
       map (\<lambda>r. (path r, length (verbBound r), length (preflights r))) (resources s) =
         [(''/'', 0, 0), (''/items'', 2, 1), (''/items/{id}'', 3, 1)] \<and>
       map path (filter (\<lambda>r. parentResource r \<noteq> None) (resources s)) =
         [''/items'', ''/items/{id}'']"
  by (simp add: constructor_result Let_def verbBound_def preflights_def methodEntries_def)

subsection \<open>C2: a preflight entry wherever a verb is bound\<close>

text \<open>
  C2: on every node of the built graph that carries an entry bound to a verb there is an
  OPTIONS entry, and every OPTIONS entry there has one integration response and one
  method response whose parameters are exactly the four CORS headers
  (\<^verbatim>\<open>Access-Control-Allow-Headers\<close>, \<^verbatim>\<open>-Methods\<close>, \<^verbatim>\<open>-Origin\<close>, \<^verbatim>\<open>-Credentials\<close>), each once
  and no other.
\<close>

theorem preflight_on_every_bound_node:
  "\<exists>s. ApiLambdaCrudDynamoDBStack dup dirname sid = Inr s \<and>
       (\<forall>r \<in> set (resources s). verbBound r \<noteq> [] \<longrightarrow>
          preflights r \<noteq> [] \<and>
          (\<forall>m \<in> set (preflights r).
             (\<exists>ir. integrationResponsesOf (integration m) = [ir] \<and>
                   exactlyCorsHeaders (responseParameters ir)) \<and>
             (\<exists>mr. methodResponses (options m) = Some [mr] \<and>
                   exactlyCorsHeaders (responseParameters mr))))"
  using cors_integration_headers cors_method_headers
  by (simp add: constructor_result Let_def verbBound_def preflights_def del: set_filter)

theorem preflight_on_every_bound_node_witness:
  "\<exists>s. app Reject ''/srv/app/cdk'' = Inr s \<and>
       resources s ! 1 \<in> set (resources s) \<and>
       verbBound (resources s ! 1) \<noteq> [] \<and>
       preflights (resources s ! 1) \<noteq> [] \<and>
       (\<exists>ir. integrationResponsesOf (integration (hd (preflights (resources s ! 1)))) = [ir] \<and>
             exactlyCorsHeaders (responseParameters ir)) \<and>
       (\<exists>mr. methodResponses (options (hd (preflights (resources s ! 1)))) = Some [mr] \<and>
             exactlyCorsHeaders (responseParameters mr))"
proof -
  obtain s where run: "app Reject ''/srv/app/cdk'' = Inr s"
    and inv: "\<forall>r \<in> set (resources s). verbBound r \<noteq> [] \<longrightarrow>
          preflights r \<noteq> [] \<and>
          (\<forall>m \<in> set (preflights r).
             (\<exists>ir. integrationResponsesOf (integration m) = [ir] \<and>
                   exactlyCorsHeaders (responseParameters ir)) \<and>
             (\<exists>mr. methodResponses (options m) = Some [mr] \<and>
                   exactlyCorsHeaders (responseParameters mr)))"
    using preflight_on_every_bound_node [of Reject "''/srv/app/cdk''" "''ApiLambdaCrudDynamoDBExample''"]
    unfolding app_def by blast
  have node: "resources s ! 1 \<in> set (resources s)"
    and bound: "verbBound (resources s ! 1) \<noteq> []"
    using run by (auto simp add: app_def constructor_result Let_def verbBound_def)
  from inv node bound have pre: "preflights (resources s ! 1) \<noteq> []"
    and each: "\<forall>m \<in> set (preflights (resources s ! 1)).
             (\<exists>ir. integrationResponsesOf (integration m) = [ir] \<and>
                   exactlyCorsHeaders (responseParameters ir)) \<and>
             (\<exists>mr. methodResponses (options m) = Some [mr] \<and>
                   exactlyCorsHeaders (responseParameters mr))"
    by blast+
  from pre have "hd (preflights (resources s ! 1)) \<in> set (preflights (resources s ! 1))"
    by simp
  with each run node bound pre show ?thesis by blast
qed

subsection \<open>C3: the environment handed to each function\<close>

text \<open>
  C3: the built graph has one table and five functions, and the environment of every
  function has the key \<^verbatim>\<open>PRIMARY_KEY\<close>, bound to the name of the table's partition key, and
  the key \<^verbatim>\<open>TABLE_NAME\<close>, bound to the table's name.
\<close>

theorem environment_names_table:
  "\<exists>s t. ApiLambdaCrudDynamoDBStack dup dirname sid = Inr s \<and>
       tables s = [t] \<and> length (lambdas s) = 5 \<and>
       (\<forall>f \<in> set (lambdas s).
          map_of (environment (props f)) ''PRIMARY_KEY'' = Some (name (partitionKey (props t))) \<and>
          map_of (environment (props f)) ''TABLE_NAME'' = Some (tableName (props t)))"
  by (simp add: constructor_result Let_def spreadOver_def nodeJsFunctionProps_def
        dynamoTableProps_def)

theorem environment_names_table_witness:
  "\<exists>s t. app Replace ''/srv/app/cdk'' = Inr s \<and> tables s = [t] \<and>
       lambdas s ! 2 \<in> set (lambdas s) \<and>
       map_of (environment (props (lambdas s ! 2))) ''PRIMARY_KEY'' = Some ''id'' \<and>
       name (partitionKey (props t)) = ''id'' \<and>
       map_of (environment (props (lambdas s ! 2))) ''TABLE_NAME'' = Some ''items'' \<and>
       tableName (props t) = ''items''"
proof -
  obtain s t where run: "app Replace ''/srv/app/cdk'' = Inr s"
    and tab: "tables s = [t]"
    and env: "\<forall>f \<in> set (lambdas s).
          map_of (environment (props f)) ''PRIMARY_KEY'' = Some (name (partitionKey (props t))) \<and>
          map_of (environment (props f)) ''TABLE_NAME'' = Some (tableName (props t))"
    using environment_names_table [of Replace "''/srv/app/cdk''" "''ApiLambdaCrudDynamoDBExample''"]
    unfolding app_def by blast
  have mem: "lambdas s ! 2 \<in> set (lambdas s)"
    using run by (auto simp add: app_def constructor_result Let_def)
  have lit: "name (partitionKey (props t)) = ''id''" "tableName (props t) = ''items''"
    using run tab by (auto simp add: app_def constructor_result Let_def dynamoTableProps_def)
  from env mem lit run tab show ?thesis by auto
qed

subsection \<open>C4: one read/write grant per function\<close>

text \<open>
  C4: for every function of the built graph, the grants that name it are exactly one, and
  that one relates it to the single table with read/write access; there are five grants
  for the five functions.
\<close>

theorem one_grant_per_function:
  "\<exists>s t. ApiLambdaCrudDynamoDBStack dup dirname sid = Inr s \<and>
       tables s = [t] \<and> length (lambdas s) = 5 \<and> length (grants s) = 5 \<and>
       (\<forall>f \<in> set (lambdas s).
          filter (\<lambda>g. grantee g = f) (grants s) =
            [\<lparr>grantee = f, onTable = t, access = ReadWriteData\<rparr>])"
  by (simp add: constructor_result Let_def)

theorem one_grant_per_function_witness:
  "\<exists>s t. app Append ''/srv/app/cdk'' = Inr s \<and> tables s = [t] \<and>
       lambdas s ! 0 \<in> set (lambdas s) \<and>
       filter (\<lambda>g. grantee g = lambdas s ! 0) (grants s) =
         [\<lparr>grantee = lambdas s ! 0, onTable = t, access = ReadWriteData\<rparr>] \<and>
       constructId (lambdas s ! 0) = ''getOneItemFunction''"
proof -
  obtain s t where run: "app Append ''/srv/app/cdk'' = Inr s"
    and tab: "tables s = [t]"
    and one: "\<forall>f \<in> set (lambdas s).
          filter (\<lambda>g. grantee g = f) (grants s) =
            [\<lparr>grantee = f, onTable = t, access = ReadWriteData\<rparr>]"
    using one_grant_per_function [of Append "''/srv/app/cdk''" "''ApiLambdaCrudDynamoDBExample''"]
    unfolding app_def by blast
  have mem: "lambdas s ! 0 \<in> set (lambdas s)"
    and cid: "constructId (lambdas s ! 0) = ''getOneItemFunction''"
    using run by (auto simp add: app_def constructor_result Let_def)
  from one mem cid run tab show ?thesis by blast
qed

subsection \<open>C5: each verb bound to its function\<close>

text \<open>
  C5: the five functions are, in order of declaration, read-one, list-all, create, update
  and delete, each with its own entry file. On \<^verbatim>\<open>/items\<close>, GET invokes the list-all
  function and POST the create function; on \<^verbatim>\<open>/items/{id}\<close>, GET invokes the read-one
  function, PUT the update function and DELETE the delete function; both nodes carry an
  OPTIONS entry, which invokes no function.
\<close>

theorem routes_bound_to_functions:
  "\<exists>s. ApiLambdaCrudDynamoDBStack dup dirname sid = Inr s \<and>
       map (\<lambda>f. (constructId f, entry (props f))) (lambdas s) =
         [(''getOneItemFunction'', Some [dirname, ''..'', ''lambdas'', ''get-one.ts'']),
          (''getAllItemsFunction'', Some [dirname, ''..'', ''lambdas'', ''get-all.ts'']),
          (''createItemFunction'', Some [dirname, ''..'', ''lambdas'', ''create.ts'']),
          (''updateItemFunction'', Some [dirname, ''..'', ''lambdas'', ''update-one.ts'']),
          (''deleteItemFunction'', Some [dirname, ''..'', ''lambdas'', ''delete-one.ts''])] \<and>
       map (\<lambda>r. (path r, map (\<lambda>m. (httpMethod m, handler (integration m))) (methods r)))
           (resources s) =
         [(''/'', []),
          (''/items'',
           [(''GET'', Some (lambdas s ! 1)), (''POST'', Some (lambdas s ! 2)),
            (''OPTIONS'', None)]),
          (''/items/{id}'',
           [(''GET'', Some (lambdas s ! 0)), (''PUT'', Some (lambdas s ! 3)),
            (''DELETE'', Some (lambdas s ! 4)), (''OPTIONS'', None)])]"
  by (simp add: constructor_result Let_def spreadOver_def nodeJsFunctionProps_def corsIntegration_def)

subsection \<open>C6: the preflight response is fixed\<close>

text \<open>
  C6: \<^verbatim>\<open>/items\<close> and \<^verbatim>\<open>/items/{id}\<close> carry one OPTIONS entry each, and every OPTIONS entry
  of the built graph invokes no function, declares status 200 in its integration response
  and in its method response, and returns fixed literals: \<^verbatim>\<open>'*'\<close> for
  \<^verbatim>\<open>Access-Control-Allow-Origin\<close>, \<^verbatim>\<open>'false'\<close> for \<^verbatim>\<open>Access-Control-Allow-Credentials\<close>, and the
  two fixed lists for \<^verbatim>\<open>Access-Control-Allow-Headers\<close> and \<^verbatim>\<open>Access-Control-Allow-Methods\<close>.
  The values are the same for every identifier, source directory and node.
\<close>

theorem preflight_contract_fixed:
  "\<exists>s. ApiLambdaCrudDynamoDBStack dup dirname sid = Inr s \<and>
       map (\<lambda>r. (path r, length (preflights r))) (resources s) =
         [(''/'', 0), (''/items'', 1), (''/items/{id}'', 1)] \<and>
       (\<forall>r \<in> set (resources s). \<forall>m \<in> set (preflights r).
          handler (integration m) = None \<and>
          map statusCode (integrationResponsesOf (integration m)) = [''200''] \<and>
          map_option (map statusCode) (methodResponses (options m)) = Some [''200''] \<and>
          preflightHeader m ''Access-Control-Allow-Origin'' = Some (quoted ''*'') \<and>
          preflightHeader m ''Access-Control-Allow-Credentials'' = Some (quoted ''false'') \<and>
          preflightHeader m ''Access-Control-Allow-Headers'' =
            Some (quoted ''Content-Type,X-Amz-Date,Authorization,X-Api-Key,X-Amz-Security-Token,X-Amz-User-Agent'') \<and>
          preflightHeader m ''Access-Control-Allow-Methods'' =
            Some (quoted ''OPTIONS,GET,PUT,POST,DELETE''))"
  by (simp add: constructor_result Let_def preflights_def cors_values cors_status del: set_filter)

theorem preflight_contract_fixed_witness:
  "\<exists>s. app Reject ''/srv/app/cdk'' = Inr s \<and>
       resources s ! 2 \<in> set (resources s) \<and>
       preflights (resources s ! 2) \<noteq> [] \<and>
       map statusCode (integrationResponsesOf (integration (hd (preflights (resources s ! 2))))) =
         [''200''] \<and>
       preflightHeader (hd (preflights (resources s ! 2))) ''Access-Control-Allow-Origin'' =
         Some [CHR 0x27, CHR ''*'', CHR 0x27]"
proof -
  obtain s where run: "app Reject ''/srv/app/cdk'' = Inr s"
    and fixed: "\<forall>r \<in> set (resources s). \<forall>m \<in> set (preflights r).
          handler (integration m) = None \<and>
          map statusCode (integrationResponsesOf (integration m)) = [''200''] \<and>
          map_option (map statusCode) (methodResponses (options m)) = Some [''200''] \<and>
          preflightHeader m ''Access-Control-Allow-Origin'' = Some (quoted ''*'') \<and>
          preflightHeader m ''Access-Control-Allow-Credentials'' = Some (quoted ''false'') \<and>
          preflightHeader m ''Access-Control-Allow-Headers'' =
            Some (quoted ''Content-Type,X-Amz-Date,Authorization,X-Api-Key,X-Amz-Security-Token,X-Amz-User-Agent'') \<and>
          preflightHeader m ''Access-Control-Allow-Methods'' =
            Some (quoted ''OPTIONS,GET,PUT,POST,DELETE'')"
    using preflight_contract_fixed [of Reject "''/srv/app/cdk''" "''ApiLambdaCrudDynamoDBExample''"]
    unfolding app_def by blast
  have node: "resources s ! 2 \<in> set (resources s)"
    and pre: "preflights (resources s ! 2) \<noteq> []"
    using run by (auto simp add: app_def constructor_result Let_def preflights_def)
  from pre have "hd (preflights (resources s ! 2)) \<in> set (preflights (resources s ! 2))"
    by simp
  with fixed node
  have "map statusCode (integrationResponsesOf (integration (hd (preflights (resources s ! 2))))) =
         [''200'']"
    and "preflightHeader (hd (preflights (resources s ! 2))) ''Access-Control-Allow-Origin'' =
         Some (quoted ''*'')"
    by blast+
  with run node pre show ?thesis by (simp add: quoted_def)
qed

subsection \<open>C7: no entry asks for authorization\<close>

text \<open>
  C7, as the specification states it, speaks of eight method entries whose authorization
  type is none. At the application's own stack every method entry is open, and the open
  entries are 7, not 8.
\<close>

theorem entries_open_not_eight:
  "\<not> isl (app Replace ''/srv/app/cdk'') \<and>
   openEntries (projr (app Replace ''/srv/app/cdk'')) =
     methodEntries (projr (app Replace ''/srv/app/cdk'')) \<and>
   length (openEntries (projr (app Replace ''/srv/app/cdk''))) \<noteq> 8"
  by (simp add: app_def constructor_result Let_def openEntries_def methodEntries_def
      resolvedAuthorizationType_def methodOption_def corsMethodOptions_def)

text \<open>
  C7, amended: the built graph has seven method entries and each of them is open: the
  authorization type of every entry resolves to \<open>NONE\<close>. The five entries bound to a verb
  name \<open>NONE\<close> themselves; the two OPTIONS entries name no authorization type and are open
  by the SDK's default.
\<close>

theorem every_entry_open:
  "\<exists>s. ApiLambdaCrudDynamoDBStack dup dirname sid = Inr s \<and>
       length (methodEntries s) = 7 \<and>
       (\<forall>m \<in> set (methodEntries s).
          resolvedAuthorizationType (options m) = NONE \<and>
          authorizationType (options m) =
            (if httpMethod m = ''OPTIONS'' then None else Some NONE))"
  by (simp add: constructor_result Let_def methodEntries_def
      resolvedAuthorizationType_def methodOption_def corsMethodOptions_def)

theorem every_entry_open_witness:
  "\<exists>s. app Append ''/srv/app/cdk'' = Inr s \<and>
       methodEntries s ! 0 \<in> set (methodEntries s) \<and>
       httpMethod (methodEntries s ! 0) = ''GET'' \<and>
       authorizationType (options (methodEntries s ! 0)) = Some NONE \<and>
       resolvedAuthorizationType (options (methodEntries s ! 0)) = NONE \<and>
       methodEntries s ! 2 \<in> set (methodEntries s) \<and>
       httpMethod (methodEntries s ! 2) = ''OPTIONS'' \<and>
       authorizationType (options (methodEntries s ! 2)) = None \<and>
       resolvedAuthorizationType (options (methodEntries s ! 2)) = NONE"
proof -
  obtain s where run: "app Append ''/srv/app/cdk'' = Inr s"
    and opn: "\<forall>m \<in> set (methodEntries s).
          resolvedAuthorizationType (options m) = NONE \<and>
          authorizationType (options m) =
            (if httpMethod m = ''OPTIONS'' then None else Some NONE)"
    using every_entry_open [of Append "''/srv/app/cdk''" "''ApiLambdaCrudDynamoDBExample''"]
    unfolding app_def by blast
  have mem: "methodEntries s ! 0 \<in> set (methodEntries s)"
      "methodEntries s ! 2 \<in> set (methodEntries s)"
    and verbs: "httpMethod (methodEntries s ! 0) = ''GET''"
      "httpMethod (methodEntries s ! 2) = ''OPTIONS''"
    using run by (auto simp add: app_def constructor_result Let_def methodEntries_def)
  from opn mem verbs run show ?thesis by auto
qed

subsection \<open>C8: attaching the preflight entry twice\<close>

text \<open>
  C8: once \<^verbatim>\<open>addCorsOptions\<close> has attached its entry to a node, applying it to that node
  again does not change the node's preflight contract, whatever the SDK does with the
  repeated verb: the OPTIONS entries of the node after the second call are those before
  it, the routine's own entry among them, so their status and header values are the same,
  and the entries bound to a verb stay as they were. Unless the SDK keeps both entries,
  the whole stack is unchanged.
\<close>

theorem addCorsOptions_repeat_keeps_contract:
  assumes "addCorsOptions dup r s = Inr s1"
  shows "set (preflights (resources (after s1 (addCorsOptions dup r s1)) ! r)) =
           set (preflights (resources s1 ! r)) \<and>
         \<lparr>httpMethod = ''OPTIONS'', integration = corsIntegration, options = corsMethodOptions\<rparr>
           \<in> set (preflights (resources s1 ! r)) \<and>
         verbBound (resources (after s1 (addCorsOptions dup r s1)) ! r) =
           verbBound (resources s1 ! r) \<and>
         (dup = Append \<or> after s1 (addCorsOptions dup r s1) = s1)"
proof -
  let ?c = "\<lparr>httpMethod = ''OPTIONS'', integration = corsIntegration,
             options = corsMethodOptions\<rparr>"
  let ?repl = "\<lambda>x. if httpMethod x = ''OPTIONS'' then ?c else x"
  define node where "node = resources s ! r"
  define ms where "ms = methods node"
  have verb: "httpMethod ?c = ''OPTIONS''" by simp
  from assms have r: "r < length (resources s)"
    by (simp add: addCorsOptions_def addMethod_def split: if_splits)
  from assms r obtain ms1
    where s1: "s1 = s\<lparr>resources := (resources s)[r := node\<lparr>methods := ms1\<rparr>]\<rparr>"
      and shape: "(''OPTIONS'' \<notin> httpMethod ` set ms \<and> ms1 = ms @ [?c]) \<or>
                  (''OPTIONS'' \<in> httpMethod ` set ms \<and> dup = Replace \<and> ms1 = map ?repl ms) \<or>
                  (''OPTIONS'' \<in> httpMethod ` set ms \<and> dup = Append \<and> ms1 = ms @ [?c])"
    by (auto simp: addCorsOptions_def addMethod_def Let_def node_def ms_def
        split: if_splits OnDuplicate.splits)
  have n1: "resources s1 ! r = node\<lparr>methods := ms1\<rparr>"
    and len: "r < length (resources s1)"
    using r s1 by simp_all
  have fixed: "map ?repl ms1 = ms1" if "dup \<noteq> Append"
  proof -
    from shape that consider
      (fresh) "''OPTIONS'' \<notin> httpMethod ` set ms" "ms1 = ms @ [?c]"
      | (replaced) "ms1 = map ?repl ms"
      by blast
    then show ?thesis
    proof cases
      case fresh
      then show ?thesis using replace_absent [of "''OPTIONS''" ms ?c] by simp
    next
      case replaced
      then show ?thesis using replace_twice [OF verb, of ms] by simp
    qed
  qed
  have mem: "?c \<in> set (filter (\<lambda>m. httpMethod m = ''OPTIONS'') ms1)"
  proof -
    from shape consider
      (appended) "ms1 = ms @ [?c]"
      | (replaced) "''OPTIONS'' \<in> httpMethod ` set ms" "ms1 = map ?repl ms"
      by blast
    then show ?thesis
    proof cases
      case appended
      then show ?thesis by simp
    next
      case replaced
      then show ?thesis using replace_present [OF verb, of ms] by simp
    qed
  qed
  then have "?c \<in> set ms1" by simp
  then have "httpMethod ?c \<in> httpMethod ` set ms1" by (rule imageI)
  then have has: "''OPTIONS'' \<in> httpMethod ` set ms1" by simp
  have same: "(resources s1)[r := node\<lparr>methods := ms1\<rparr>] = resources s1"
    using n1 list_update_id [of "resources s1" r] by simp
  have second: "addCorsOptions dup r s1 =
      (case dup of
         Reject \<Rightarrow> Inl (DuplicateMethod (path node) ''OPTIONS'')
       | Replace \<Rightarrow>
           Inr (s1\<lparr>resources := (resources s1)[r := node\<lparr>methods := map ?repl ms1\<rparr>]\<rparr>)
       | Append \<Rightarrow> Inr (s1\<lparr>resources := (resources s1)[r := node\<lparr>methods := ms1 @ [?c]\<rparr>]\<rparr>))"
    using len has by (simp add: addCorsOptions_def addMethod_def Let_def n1 split: OnDuplicate.splits)
  show ?thesis
  proof (cases dup)
    case Reject
    with second have "after s1 (addCorsOptions dup r s1) = s1"
      by (simp add: after_def)
    with mem n1 show ?thesis by (simp add: preflights_def)
  next
    case Replace
    with fixed have "map ?repl ms1 = ms1" by simp
    with second Replace same have "after s1 (addCorsOptions dup r s1) = s1"
      by (simp add: after_def)
    with mem n1 show ?thesis by (simp add: preflights_def)
  next
    case Append
    with second len
    have "resources (after s1 (addCorsOptions dup r s1)) ! r = node\<lparr>methods := ms1 @ [?c]\<rparr>"
      by (simp add: after_def)
    with mem n1 Append show ?thesis
      by (simp add: preflights_def verbBound_def insert_absorb)
  qed
qed

theorem addCorsOptions_repeat_keeps_contract_witness:
  "\<exists>s1. addCorsOptions Reject 0 (snd (RestApi_new ''itemsApi'' \<lparr>restApiName = ''Items Service''\<rparr> (Stack_new ''ApiLambdaCrudDynamoDBExample''))) = Inr s1 \<and>
        addCorsOptions Reject 0 s1 = Inl (DuplicateMethod ''/'' ''OPTIONS'') \<and>
        after s1 (addCorsOptions Reject 0 s1) = s1 \<and>
        preflights (resources s1 ! 0) =
          [\<lparr>httpMethod = ''OPTIONS'', integration = corsIntegration, options = corsMethodOptions\<rparr>] \<and>
        set (preflights (resources (after s1 (addCorsOptions Reject 0 s1)) ! 0)) =
          set (preflights (resources s1 ! 0))"
proof -
  let ?s = "snd (RestApi_new ''itemsApi'' \<lparr>restApiName = ''Items Service''\<rparr> (Stack_new ''ApiLambdaCrudDynamoDBExample''))"
  obtain s1 where first: "addCorsOptions Reject 0 ?s = Inr s1"
    by (simp add: addCorsOptions_def addMethod_def RestApi_new_def Stack_new_def Let_def)
  from first have again: "addCorsOptions Reject 0 s1 = Inl (DuplicateMethod ''/'' ''OPTIONS'')"
    and pre: "preflights (resources s1 ! 0) =
          [\<lparr>httpMethod = ''OPTIONS'', integration = corsIntegration, options = corsMethodOptions\<rparr>]"
    by (auto simp add: addCorsOptions_def addMethod_def RestApi_new_def Stack_new_def Let_def preflights_def)
  from addCorsOptions_repeat_keeps_contract [OF first] first again pre
  show ?thesis by auto
qed

subsection \<open>C9: the collection node advertises verbs it does not bind\<close>

text \<open>
  C9: the preflight entries of \<^verbatim>\<open>/items\<close> and of \<^verbatim>\<open>/items/{id}\<close> return the same
  \<^verbatim>\<open>Access-Control-Allow-Methods\<close> value, \<^verbatim>\<open>'OPTIONS,GET,PUT,POST,DELETE'\<close>, which lists PUT
  and DELETE, while the entries of \<^verbatim>\<open>/items\<close> are GET, POST and OPTIONS: neither PUT nor
  DELETE is declared there.
\<close>

theorem collection_preflight_advertises_unbound_verbs:
  "\<exists>s. ApiLambdaCrudDynamoDBStack dup dirname sid = Inr s \<and>
       map (\<lambda>r. (path r,
                 map (\<lambda>m. preflightHeader m ''Access-Control-Allow-Methods'') (preflights r)))
           (resources s) =
         [(''/'', []),
          (''/items'', [Some (quoted ''OPTIONS,GET,PUT,POST,DELETE'')]),
          (''/items/{id}'', [Some (quoted ''OPTIONS,GET,PUT,POST,DELETE'')])] \<and>
       advertised (quoted ''OPTIONS,GET,PUT,POST,DELETE'') =
         [''OPTIONS'', ''GET'', ''PUT'', ''POST'', ''DELETE''] \<and>
       path (resources s ! 1) = ''/items'' \<and>
       map httpMethod (methods (resources s ! 1)) = [''GET'', ''POST'', ''OPTIONS''] \<and>
       ''PUT'' \<notin> set (map httpMethod (methods (resources s ! 1))) \<and>
       ''DELETE'' \<notin> set (map httpMethod (methods (resources s ! 1)))"
  by (simp add: constructor_result Let_def preflights_def cors_values
      advertised_def unquoted_def quoted_def)

subsection \<open>C10: one shared configuration\<close>

text \<open>
  C10: the properties of each of the five functions are the one shared configuration with
  an entry spread over it, so any two functions have the same runtime, bundling options
  and environment, and become equal once identifier and entry of the one are set to those
  of the other; the identifiers are pairwise distinct, and so are the entries.
\<close>

theorem functions_share_configuration:
  "\<exists>s t. ApiLambdaCrudDynamoDBStack dup dirname sid = Inr s \<and>
       tables s = [t] \<and> length (lambdas s) = 5 \<and>
       (\<forall>f \<in> set (lambdas s). \<exists>e. props f = spreadOver e (nodeJsFunctionProps t)) \<and>
       (\<forall>f \<in> set (lambdas s). \<forall>g \<in> set (lambdas s).
          runtime (props f) = runtime (props g) \<and>
          bundling (props f) = bundling (props g) \<and>
          environment (props f) = environment (props g) \<and>
          f\<lparr>constructId := constructId g, props := (props f)\<lparr>entry := entry (props g)\<rparr>\<rparr> = g) \<and>
       distinct (map constructId (lambdas s)) \<and>
       distinct (map (\<lambda>f. entry (props f)) (lambdas s))"
  by (simp add: constructor_result Let_def spreadOver_def nodeJsFunctionProps_def)

theorem functions_share_configuration_witness:
  "\<exists>s. app Reject ''/srv/app/cdk'' = Inr s \<and>
       lambdas s ! 0 \<in> set (lambdas s) \<and> lambdas s ! 4 \<in> set (lambdas s) \<and>
       constructId (lambdas s ! 0) \<noteq> constructId (lambdas s ! 4) \<and>
       entry (props (lambdas s ! 0)) \<noteq> entry (props (lambdas s ! 4)) \<and>
       runtime (props (lambdas s ! 0)) = runtime (props (lambdas s ! 4)) \<and>
       bundling (props (lambdas s ! 0)) = bundling (props (lambdas s ! 4)) \<and>
       environment (props (lambdas s ! 0)) = environment (props (lambdas s ! 4)) \<and>
       (lambdas s ! 0)\<lparr>constructId := constructId (lambdas s ! 4),
          props := (props (lambdas s ! 0))\<lparr>entry := entry (props (lambdas s ! 4))\<rparr>\<rparr> =
         lambdas s ! 4"
proof -
  obtain s where run: "app Reject ''/srv/app/cdk'' = Inr s"
    and shared: "\<forall>f \<in> set (lambdas s). \<forall>g \<in> set (lambdas s).
          runtime (props f) = runtime (props g) \<and>
          bundling (props f) = bundling (props g) \<and>
          environment (props f) = environment (props g) \<and>
          f\<lparr>constructId := constructId g, props := (props f)\<lparr>entry := entry (props g)\<rparr>\<rparr> = g"
    using functions_share_configuration [of Reject "''/srv/app/cdk''" "''ApiLambdaCrudDynamoDBExample''"]
    unfolding app_def by blast
  have mem: "lambdas s ! 0 \<in> set (lambdas s)" "lambdas s ! 4 \<in> set (lambdas s)"
    and differ: "constructId (lambdas s ! 0) \<noteq> constructId (lambdas s ! 4)"
      "entry (props (lambdas s ! 0)) \<noteq> entry (props (lambdas s ! 4))"
    using run
    by (auto simp add: app_def constructor_result Let_def spreadOver_def nodeJsFunctionProps_def)
  from shared mem differ run show ?thesis by blast
qed

end
